theory Spec2Isabelle
  imports Main "HOL-Library.Word"
begin

unbundle bit_operations_syntax

section \<open>Bytes, exceptions and the serial line\<close>

text \<open>
  A Python \<open>bytes\<close> value is a list of 8-bit values; HOL's \<open>char\<close> is exactly such a
  value, so \<open>bytes\<close> is \<open>string\<close> and the class constants of
  \<open>AccuChekPerformaNano\<close> are characters. \<open>of_char\<close> reads a byte as a number.
\<close>

type_synonym bytes = string

abbreviation STX :: char where "STX \<equiv> CHR 0x02"
abbreviation ETX :: char where "ETX \<equiv> CHR 0x03"
abbreviation EOT :: char where "EOT \<equiv> CHR 0x04"
abbreviation ACK :: char where "ACK \<equiv> CHR 0x06"
abbreviation TAB :: char where "TAB \<equiv> CHR 0x09"
abbreviation NAK :: char where "NAK \<equiv> CHR 0x15"
abbreviation CAN :: char where "CAN \<equiv> CHR 0x18"
abbreviation GET_AND_CLEAR_STATUS :: char where "GET_AND_CLEAR_STATUS \<equiv> CHR 0x0B"
abbreviation SET_METER_SETTING :: char where "SET_METER_SETTING \<equiv> CHR 0x0C"
abbreviation CR :: char where "CR \<equiv> CHR 0x0D"
abbreviation TURN_OFF :: char where "TURN_OFF \<equiv> CHR 0x1D"
abbreviation GET_FIELD_DATE :: char where "GET_FIELD_DATE \<equiv> CHR 0x31"
abbreviation GET_FIELD_TIME :: char where "GET_FIELD_TIME \<equiv> CHR 0x32"
abbreviation GET_FIELD_UNITS :: char where "GET_FIELD_UNITS \<equiv> CHR 0x33"
abbreviation GET_SERIAL_NUMBER :: char where "GET_SERIAL_NUMBER \<equiv> CHR 0x33"
abbreviation GET_METER_NUMBER :: char where "GET_METER_NUMBER \<equiv> CHR 0x34"
abbreviation GET_METER_CONFIGURATION :: char where "GET_METER_CONFIGURATION \<equiv> CHR 0x43"
abbreviation GET_METER_SETTING :: char where "GET_METER_SETTING \<equiv> CHR 0x53"
abbreviation GET_METER_NAME :: char where "GET_METER_NAME \<equiv> CHR 0x49"
abbreviation GET_READING_COUNT :: char where "GET_READING_COUNT \<equiv> CHR 0x60"
abbreviation GET_READINGS :: char where "GET_READINGS \<equiv> CHR 0x61"
abbreviation CLEAR_READINGS :: char where "CLEAR_READINGS \<equiv> CHR 0x52"
abbreviation FIELD_SEPARATOR :: char where "FIELD_SEPARATOR \<equiv> CHR 0x09"

text \<open>
  The exceptions the driver can raise or meet. A function that may raise returns
  \<open>error + 'a\<close>, \<open>Inl\<close> carrying the exception.
\<close>

datatype error =
    TimeoutError | ParseError | TypeError | ValueError | IndexError
  | AttributeError | UnicodeDecodeError | OverflowError | InvalidOperation

definition and_then :: "error + 'a \<Rightarrow> ('a \<Rightarrow> error + 'b) \<Rightarrow> error + 'b" where
  "and_then r f = (case r of Inl e \<Rightarrow> Inl e | Inr v \<Rightarrow> f v)"

text \<open>
  The serial port is the one external collaborator. Its state is what the meter will
  still deliver, as the bursts in which the bytes arrive (\<open>rx\<close>; an empty burst is a read
  that times out), and everything the host has written so far (\<open>tx\<close>).
  \<open>Serial.read(size)\<close> hands out at most \<open>size\<close> bytes of the burst at the head,
  \<open>Serial.in_waiting\<close> is the length of that burst, and \<open>Serial.write\<close> appends to
  \<open>tx\<close> and returns the number of bytes written. When nothing is left, a read returns
  the empty byte string: the one-second timeout has expired.
\<close>

record serial =
  rx :: "bytes list"
  tx :: bytes

definition in_waiting :: "serial \<Rightarrow> nat" where
  "in_waiting s = (case rx s of [] \<Rightarrow> 0 | c # cs \<Rightarrow> length c)"

definition send :: "bytes \<Rightarrow> serial \<Rightarrow> nat \<times> serial" where
  "send data s = (length data, s\<lparr>tx := tx s @ data\<rparr>)"

definition receive :: "nat \<Rightarrow> serial \<Rightarrow> bytes \<times> serial" where
  "receive n s =
     (case rx s of
        [] \<Rightarrow> ([], s)
      | c # cs \<Rightarrow> (take n c, s\<lparr>rx := (if drop n c = [] then cs else drop n c # cs)\<rparr>))"

section \<open>Checksum\<close>

text \<open>
  \<open>_checksum\<close>: the accumulator starts at 110 and every byte is XORed into it, in order.
  Python integers are unbounded, so the accumulator is an \<open>int\<close>.
\<close>

fun checksum_loop :: "int \<Rightarrow> bytes \<Rightarrow> int" where
  "checksum_loop acc [] = acc"
| "checksum_loop acc (byte # rest) = checksum_loop (acc XOR of_char byte) rest"

definition checksum :: "bytes \<Rightarrow> int" where
  "checksum data = checksum_loop 110 data"

section \<open>Text helpers of the Python library\<close>

text \<open>
  A Python \<open>str\<close> is the list of its code points. \<open>bytes.decode()\<close> reads the bytes as
  UTF-8 and is strict: a lead byte needs its continuation bytes, and overlong forms,
  surrogates and code points beyond U+10FFFF raise \<open>UnicodeDecodeError\<close>.
\<close>

type_synonym str = "int list"

abbreviation ord :: "char \<Rightarrow> int" where "ord c \<equiv> of_char c"

definition continuation :: "int \<Rightarrow> bool" where
  "continuation b = (0x80 \<le> b \<and> b \<le> 0xBF)"

fun utf8 :: "int list \<Rightarrow> str option" where
  "utf8 [] = Some []"
| "utf8 (a # bs) =
     (if a < 0x80 then map_option (Cons a) (utf8 bs)
      else if 0xC2 \<le> a \<and> a \<le> 0xDF then
        (case bs of
           b # r \<Rightarrow>
             if continuation b
             then map_option (Cons ((a - 0xC0) * 0x40 + (b - 0x80))) (utf8 r)
             else None
         | _ \<Rightarrow> None)
      else if 0xE0 \<le> a \<and> a \<le> 0xEF then
        (case bs of
           b # c # r \<Rightarrow>
             if (if a = 0xE0 then 0xA0 else 0x80) \<le> b \<and> b \<le> (if a = 0xED then 0x9F else 0xBF)
                \<and> continuation c
             then map_option (Cons ((a - 0xE0) * 0x1000 + (b - 0x80) * 0x40 + (c - 0x80))) (utf8 r)
             else None
         | _ \<Rightarrow> None)
      else if 0xF0 \<le> a \<and> a \<le> 0xF4 then
        (case bs of
           b # c # d # r \<Rightarrow>
             if (if a = 0xF0 then 0x90 else 0x80) \<le> b \<and> b \<le> (if a = 0xF4 then 0x8F else 0xBF)
                \<and> continuation c \<and> continuation d
             then map_option
                    (Cons ((a - 0xF0) * 0x40000 + (b - 0x80) * 0x1000 + (c - 0x80) * 0x40 + (d - 0x80)))
                    (utf8 r)
             else None
         | _ \<Rightarrow> None)
      else None)"

definition decode :: "bytes \<Rightarrow> error + str" where
  "decode bs = (case utf8 (map ord bs) of None \<Rightarrow> Inl UnicodeDecodeError | Some t \<Rightarrow> Inr t)"

text \<open>\<open>sep.join(parts)\<close>.\<close>

fun join_bytes :: "bytes \<Rightarrow> bytes list \<Rightarrow> bytes" where
  "join_bytes sep [] = []"
| "join_bytes sep [x] = x"
| "join_bytes sep (x # y # ys) = x @ sep @ join_bytes sep (y # ys)"

text \<open>\<open>data.split(sep)\<close> for a one-byte separator: always at least one part.\<close>

fun split_bytes :: "char \<Rightarrow> bytes \<Rightarrow> bytes list" where
  "split_bytes sep [] = [[]]"
| "split_bytes sep (c # cs) =
     (if c = sep then [] # split_bytes sep cs
      else (case split_bytes sep cs of [] \<Rightarrow> [[c]] | x # xs \<Rightarrow> (c # x) # xs))"

text \<open>\<open>data.strip(sep)\<close> for a one-byte argument: drop it from both ends.\<close>

definition strip_bytes :: "char \<Rightarrow> bytes \<Rightarrow> bytes" where
  "strip_bytes sep data = rev (dropWhile (\<lambda>c. c = sep) (rev (dropWhile (\<lambda>c. c = sep) data)))"

text \<open>
  A slice \<open>xs[i:j]\<close> with Python's rule for indices: a negative index counts from the
  end, and both ends are clamped to the list.
\<close>

definition py_slice :: "'a list \<Rightarrow> int \<Rightarrow> int \<Rightarrow> 'a list" where
  "py_slice xs i j =
     (let n = int (length xs);
          lo = (if i < 0 then max 0 (n + i) else min i n);
          hi = (if j < 0 then max 0 (n + j) else min j n)
      in take (nat (hi - lo)) (drop (nat lo) xs))"

text \<open>\<open>xs[i]\<close> for a non-negative index: \<open>IndexError\<close> out of range.\<close>

definition item :: "'a list \<Rightarrow> nat \<Rightarrow> error + 'a" where
  "item xs i = (if i < length xs then Inr (xs ! i) else Inl IndexError)"

text \<open>
  \<open>int(text, base)\<close> for base 10 and 16. The interpreter first brings the text to ASCII
  (\<open>to_ascii\<close> below) and then reads the ASCII text: surrounding white space is dropped,
  one sign is allowed, base 16 allows the prefix \<open>0x\<close>, and single underscores may stand
  between digits (and right after the prefix). Anything else is a \<open>ValueError\<close>. The
  interpreter's configurable limit on the number of decimal digits is not part of the
  model.
\<close>

definition is_space :: "int \<Rightarrow> bool" where
  "is_space c = (c \<in> set [0x09, 0x0A, 0x0B, 0x0C, 0x0D, 0x20])"

definition strip_space :: "str \<Rightarrow> str" where
  "strip_space s = rev (dropWhile is_space (rev (dropWhile is_space s)))"

definition digit_value :: "int \<Rightarrow> int option" where
  "digit_value c =
     (if ord CHR ''0'' \<le> c \<and> c \<le> ord CHR ''9'' then Some (c - ord CHR ''0'')
      else if ord CHR ''a'' \<le> c \<and> c \<le> ord CHR ''z'' then Some (c - ord CHR ''a'' + 10)
      else if ord CHR ''A'' \<le> c \<and> c \<le> ord CHR ''Z'' then Some (c - ord CHR ''A'' + 10)
      else None)"

fun digits_value :: "int \<Rightarrow> bool \<Rightarrow> int \<Rightarrow> str \<Rightarrow> int option" where
  "digits_value b may_underscore acc [] = (if may_underscore then Some acc else None)"
| "digits_value b may_underscore acc (c # cs) =
     (if c = ord CHR ''_'' then
        (if may_underscore \<and> cs \<noteq> [] then digits_value b False acc cs else None)
      else (case digit_value c of
              None \<Rightarrow> None
            | Some d \<Rightarrow> if d < b then digits_value b True (acc * b + d) cs else None))"

definition long_from_string :: "int \<Rightarrow> str \<Rightarrow> error + int" where
  "long_from_string b s =
     (let t = strip_space s;
          neg = (t \<noteq> [] \<and> hd t = ord CHR ''-'');
          u = (if t \<noteq> [] \<and> (hd t = ord CHR ''-'' \<or> hd t = ord CHR ''+'') then tl t else t);
          pre = (b = 16 \<and> 2 \<le> length u \<and> hd u = ord CHR ''0''
                 \<and> (hd (tl u) = ord CHR ''x'' \<or> hd (tl u) = ord CHR ''X''));
          v = (if pre then drop 2 u else u)
      in if v = [] then Inl ValueError
         else (case digits_value b pre 0 v of
                 None \<Rightarrow> Inl ValueError
               | Some n \<Rightarrow> Inr (if neg then - n else n)))"

text \<open>
  Bringing a \<open>str\<close> to ASCII: a code point below 127 stays, a white-space character
  beyond becomes a blank, a decimal digit of any script becomes the ASCII digit of its
  value, and anything else becomes \<open>?\<close>, which no number contains. The decimal digits
  (general category Nd, Unicode 14.0, which CPython 3.11 carries) come in runs of ten,
  each starting at the code point of its zero.
\<close>

definition decimal_zeros :: "int list" where
  "decimal_zeros =
     [0x30, 0x660, 0x6F0, 0x7C0, 0x966, 0x9E6, 0xA66, 0xAE6, 0xB66, 0xBE6, 0xC66, 0xCE6,
      0xD66, 0xDE6, 0xE50, 0xED0, 0xF20, 0x1040, 0x1090, 0x17E0, 0x1810, 0x1946, 0x19D0,
      0x1A80, 0x1A90, 0x1B50, 0x1BB0, 0x1C40, 0x1C50, 0xA620, 0xA8D0, 0xA900, 0xA9D0,
      0xA9F0, 0xAA50, 0xABF0, 0xFF10, 0x104A0, 0x10D30, 0x11066, 0x110F0, 0x11136, 0x111D0,
      0x112F0, 0x11450, 0x114D0, 0x11650, 0x116C0, 0x11730, 0x118E0, 0x11950, 0x11C50,
      0x11D50, 0x11DA0, 0x16A60, 0x16AC0, 0x16B50, 0x1D7CE, 0x1D7D8, 0x1D7E2, 0x1D7EC,
      0x1D7F6, 0x1E140, 0x1E2F0, 0x1E950, 0x1FBF0]"

definition decimal_digit :: "int \<Rightarrow> int option" where
  "decimal_digit c =
     (case find (\<lambda>z. z \<le> c \<and> c < z + 10) decimal_zeros of
        None \<Rightarrow> None
      | Some z \<Rightarrow> Some (c - z))"

definition unicode_space :: "int \<Rightarrow> bool" where
  "unicode_space c =
     (c \<in> set [0x85, 0xA0, 0x1680, 0x2000, 0x2001, 0x2002, 0x2003, 0x2004, 0x2005, 0x2006,
               0x2007, 0x2008, 0x2009, 0x200A, 0x2028, 0x2029, 0x202F, 0x205F, 0x3000])"

definition to_ascii :: "int \<Rightarrow> int" where
  "to_ascii c =
     (if c < 127 then c
      else if unicode_space c then ord CHR 0x20
      else (case decimal_digit c of None \<Rightarrow> ord CHR ''?'' | Some d \<Rightarrow> ord CHR ''0'' + d))"

definition py_int :: "int \<Rightarrow> str \<Rightarrow> error + int" where
  "py_int b s = long_from_string b (map to_ascii s)"

text \<open>\<open>str(n)\<close>, \<open>text.zfill(2)\<close> and \<open>'%02X' % n\<close>.\<close>

definition digit_char :: "nat \<Rightarrow> char" where
  "digit_char d = ''0123456789ABCDEF'' ! d"

fun str_nat :: "nat \<Rightarrow> string" where
  "str_nat n = (if n < 10 then [digit_char n] else str_nat (n div 10) @ [digit_char (n mod 10)])"

definition str_int :: "int \<Rightarrow> string" where
  "str_int i = (if i < 0 then CHR ''-'' # str_nat (nat (- i)) else str_nat (nat i))"

fun hex_nat :: "nat \<Rightarrow> string" where
  "hex_nat n = (if n < 16 then [digit_char n] else hex_nat (n div 16) @ [digit_char (n mod 16)])"

definition zfill2 :: "string \<Rightarrow> string" where
  "zfill2 s = replicate (2 - length s) CHR ''0'' @ s"

definition fmt_02X :: "int \<Rightarrow> string" where
  "fmt_02X i = (if i < 0 then CHR ''-'' # hex_nat (nat (- i)) else zfill2 (hex_nat (nat i)))"

declare str_nat.simps [simp del] hex_nat.simps [simp del]

section \<open>Command handshake\<close>

text \<open>
  \<open>_send_command\<close>: the command and its fields, joined by the field separator, go out
  one byte at a time, each followed by a read of one byte (the echo, which is not
  looked at). Then CR goes out and one byte is read. When that byte is neither ACK
  nor NAK the warning's text is built with \<open>'%02X' % received\<close>, where \<open>received\<close> is a
  \<open>bytes\<close> object and not an integer: the formatting raises \<open>TypeError\<close>.
\<close>

fun echo_loop :: "bytes \<Rightarrow> serial \<Rightarrow> serial" where
  "echo_loop [] s = s"
| "echo_loop (data # rest) s =
     (case send [data] s of (n, s1) \<Rightarrow>
      case receive n s1 of (echo, s2) \<Rightarrow> echo_loop rest s2)"

definition send_command :: "bytes \<Rightarrow> bytes list \<Rightarrow> serial \<Rightarrow> (error + bool) \<times> serial" where
  "send_command cmd flds s =
     (let s1 = echo_loop (join_bytes [FIELD_SEPARATOR] (cmd # flds)) s
      in case send [CR] s1 of (n, s2) \<Rightarrow>
         case receive n s2 of (received, s3) \<Rightarrow>
           if received \<noteq> [ACK] \<and> received \<noteq> [NAK] then (Inl TypeError, s3)
           else (Inr (received = [ACK]), s3))"

section \<open>Packet receiver\<close>

text \<open>
  The local variables of \<open>_receive_packet\<close>. \<open>retries\<close> starts at \<open>self._retries\<close>,
  which the constructor sets to 5 and nothing changes.
\<close>

record receiver =
  packet :: bytes
  in_packet :: bool
  retries :: nat
  blocks :: "bytes list"

definition initial_retries :: nat where
  "initial_retries = 5"

definition receiver_init :: receiver where
  "receiver_init = \<lparr>packet = [], in_packet = False, retries = initial_retries, blocks = []\<rparr>"

text \<open>
  How the handling of one byte leaves the function: the loop goes on, the function
  returns (a list of blocks, or nothing when the bare \<open>return\<close> is taken), or an exception
  leaves it.
\<close>

datatype flow = Running | Returned "bytes list option" | Raised error

text \<open>
  The body of the \<open>try\<close> up to the checksum comparison: the length field, the data and
  the checksum field are cut out of the buffer. The third \<open>raise\<close> applies \<open>-\<close> to a
  string and an integer, so it is a \<open>TypeError\<close> that leaves the \<open>try\<close> there.
\<close>

definition check_packet :: "bytes \<Rightarrow> error + bytes" where
  "check_packet p =
     (if length p < 2 then Inl ParseError
      else and_then (and_then (decode (py_slice p 0 2)) (py_int 16)) (\<lambda>len.
        if int (length p) < 2 + len then Inl ParseError
        else let data = py_slice p 2 (2 + len)
             in if int (length p) < 2 + len + 2 then Inl TypeError
                else and_then (and_then (decode (py_slice p (2 + len) (2 + len + 2))) (py_int 16))
                       (\<lambda>cks. if cks \<noteq> checksum data then Inl ParseError else Inr data)))"

text \<open>
  The \<open>except Exception\<close> handler: with budget left, one unit is spent and NAK goes out;
  with none left the function returns nothing. The buffer and \<open>in_packet\<close> stay as
  they are.
\<close>

definition on_error :: "receiver \<Rightarrow> serial \<Rightarrow> flow \<times> receiver \<times> serial" where
  "on_error st s =
     (if retries st \<noteq> 0 then (Running, st\<lparr>retries := retries st - 1\<rparr>, snd (send [NAK] s))
      else (Returned None, st, s))"

text \<open>
  The branch for ETX and EOT. After a packet that checks, ACK goes out and the data,
  stripped of separators at both ends, joins the blocks. On EOT one more byte is read;
  if it is not ACK the message is again built with \<open>'%02X'\<close> on a \<open>bytes\<close> object, which
  raises inside the \<open>try\<close> and is handled like every other failure (the block stays
  appended).
\<close>

definition end_of_packet :: "char \<Rightarrow> receiver \<Rightarrow> serial \<Rightarrow> flow \<times> receiver \<times> serial" where
  "end_of_packet byte st s =
     (case check_packet (packet st) of
        Inl e \<Rightarrow> on_error st s
      | Inr data \<Rightarrow>
          let s1 = snd (send [ACK] s);
              st1 = st\<lparr>blocks := blocks st @ [strip_bytes FIELD_SEPARATOR data]\<rparr>
          in if byte = EOT then
               (case receive 1 s1 of (reply, s2) \<Rightarrow>
                  if reply \<noteq> [ACK] then on_error st1 s2
                  else (Returned (Some (blocks st1)), st1, s2))
             else (Running, st1\<lparr>packet := [], in_packet := False\<rparr>, s1))"

text \<open>
  The body of \<open>for byte in received\<close>. The last branch builds its warning with
  \<open>'%02X' % byte\<close> after \<open>byte = bytes([byte])\<close>, outside the \<open>try\<close>: a \<open>TypeError\<close> leaves
  the function.
\<close>

definition process_byte :: "char \<Rightarrow> receiver \<Rightarrow> serial \<Rightarrow> flow \<times> receiver \<times> serial" where
  "process_byte byte st s =
     (if byte = STX then (Running, st\<lparr>in_packet := True\<rparr>, s)
      else if byte = ETX \<or> byte = EOT then end_of_packet byte st s
      else if in_packet st then (Running, st\<lparr>packet := packet st @ [byte]\<rparr>, s)
      else (Raised TypeError, st, s))"

fun process_bytes :: "bytes \<Rightarrow> receiver \<Rightarrow> serial \<Rightarrow> flow \<times> receiver \<times> serial" where
  "process_bytes [] st s = (Running, st, s)"
| "process_bytes (byte # rest) st s =
     (case process_byte byte st s of
        (Running, st1, s1) \<Rightarrow> process_bytes rest st1 s1
      | (Returned r, st1, s1) \<Rightarrow> (Returned r, st1, s1)
      | (Raised e, st1, s1) \<Rightarrow> (Raised e, st1, s1))"

text \<open>
  What is still to come on the line: every read that returns something makes it
  smaller, which is why the \<open>while True\<close> loop ends.
\<close>

definition pending :: "serial \<Rightarrow> nat" where
  "pending s = sum_list (map (\<lambda>c. Suc (length c)) (rx s))"

lemma pending_send: "pending (snd (send d s)) = pending s"
  by (simp add: pending_def send_def)

lemma pending_receive: "pending (snd (receive n s)) \<le> pending s"
  by (cases "rx s") (auto simp: pending_def receive_def)

lemma pending_on_error: "pending (snd (snd (on_error st s))) \<le> pending s"
  by (simp add: on_error_def pending_send)

lemma pending_end_of_packet: "pending (snd (snd (end_of_packet b st s))) \<le> pending s"
proof (cases "check_packet (packet st)")
  case (Inl e)
  then show ?thesis by (simp add: end_of_packet_def pending_on_error)
next
  case (Inr data)
  obtain reply s2 where rc: "receive 1 (snd (send [ACK] s)) = (reply, s2)"
    by (cases "receive 1 (snd (send [ACK] s))") auto
  have r: "pending s2 \<le> pending s"
    using pending_receive [of 1 "snd (send [ACK] s)"] rc by (simp add: pending_send)
  have e: "pending (snd (snd (on_error st' s2))) \<le> pending s" for st'
    using pending_on_error [of st' s2] r by linarith
  show ?thesis
    using Inr rc r e by (simp add: end_of_packet_def Let_def pending_send)
qed

lemma pending_process_byte: "pending (snd (snd (process_byte b st s))) \<le> pending s"
  by (simp add: process_byte_def pending_end_of_packet)

lemma pending_process_bytes: "pending (snd (snd (process_bytes bs st s))) \<le> pending s"
proof (induction bs arbitrary: st s)
  case Nil
  then show ?case by simp
next
  case (Cons b bs)
  obtain f st1 s1 where p: "process_byte b st s = (f, st1, s1)"
    by (cases "process_byte b st s") auto
  have le: "pending s1 \<le> pending s"
    using pending_process_byte [of b st s] p by simp
  show ?case
  proof (cases f)
    case Running
    then show ?thesis using p le Cons.IH [of st1 s1] by simp
  next
    case (Returned r)
    then show ?thesis using p le by simp
  next
    case (Raised e)
    then show ?thesis using p le by simp
  qed
qed

lemma pending_read_all:
  "fst (receive (if in_waiting s = 0 then 1 else in_waiting s) s) \<noteq> [] \<Longrightarrow>
   pending (snd (receive (if in_waiting s = 0 then 1 else in_waiting s) s)) < pending s"
  by (cases "rx s") (auto simp: pending_def receive_def in_waiting_def)

lemma receive_loop_step:
  assumes "receive (if in_waiting s = 0 then 1 else in_waiting s) s = (received, s1)"
    and "received \<noteq> []"
    and "process_bytes received st s1 = (f, st2, s2)"
  shows "pending s2 < pending s"
proof -
  have "pending s1 < pending s"
    using pending_read_all [of s] assms(1,2) by simp
  moreover have "pending s2 \<le> pending s1"
    using pending_process_bytes [of received st s1] assms(3) by simp
  ultimately show ?thesis by linarith
qed

text \<open>
  The \<open>while True\<close> loop: read what is waiting (or one byte), raise \<open>TimeoutError\<close> when
  the read comes back empty, and run the \<open>for\<close> loop over the bytes that came.
\<close>

function receive_loop :: "receiver \<Rightarrow> serial \<Rightarrow> (error + bytes list option) \<times> serial" where
  "receive_loop st s =
     (case receive (if in_waiting s = 0 then 1 else in_waiting s) s of (received, s1) \<Rightarrow>
        if received = [] then (Inl TimeoutError, s1)
        else (case process_bytes received st s1 of
                (Running, st2, s2) \<Rightarrow> receive_loop st2 s2
              | (Returned r, st2, s2) \<Rightarrow> (Inr r, s2)
              | (Raised e, st2, s2) \<Rightarrow> (Inl e, s2)))"
  by pat_completeness auto
termination
proof (relation "measure (\<lambda>(st, s). pending s)")
  show "wf (measure (\<lambda>(st, s). pending s))" by simp
next
  fix st :: receiver and s :: serial and received s1 f rest st2 s2
  assume "(received, s1) = receive (if in_waiting s = 0 then 1 else in_waiting s) s"
    and "received \<noteq> []"
    and "(f, rest) = process_bytes received st s1" and "f = Running"
    and "(st2, s2) = rest"
  then have "pending s2 < pending s"
    using receive_loop_step [of s received s1 st f st2 s2] by simp
  then show "((st2, s2), st, s) \<in> measure (\<lambda>(st, s). pending s)" by simp
qed

declare receive_loop.simps [simp del]

text \<open>\<open>_receive_packet\<close> starts the loop with its local variables fresh.\<close>

definition receive_packet :: "serial \<Rightarrow> (error + bytes list option) \<times> serial" where
  "receive_packet s = receive_loop receiver_init s"

section \<open>Packet sender\<close>

text \<open>
  \<open>_send_packet\<close>: the frame is built when there are fields (the length as decimal
  digits, the checksum as two hexadecimal digits), and stays empty otherwise. The
  \<open>while retries\<close> loop spends one unit of budget per round. After NAK it goes round
  again; after ACK it answers with ACK and, having no \<open>break\<close> there, goes round again
  as well; after any other byte the warning is built with \<open>'%02X' % received\<close> on a
  \<open>bytes\<close> object, so \<open>TypeError\<close> is raised before the NAK and the \<open>break\<close> are reached.
\<close>

definition frame :: "bytes list \<Rightarrow> bytes" where
  "frame flds =
     (if length flds \<noteq> 0 then
        (let data = FIELD_SEPARATOR # join_bytes [FIELD_SEPARATOR] flds @ [FIELD_SEPARATOR];
             len = zfill2 (str_nat (length data));
             cks = fmt_02X (checksum data)
         in STX # len @ data @ cks @ [EOT])
      else [])"

fun send_loop :: "nat \<Rightarrow> bytes \<Rightarrow> serial \<Rightarrow> (error + unit) \<times> serial" where
  "send_loop 0 p s = (Inr (), s)"
| "send_loop (Suc r) p s =
     (let s1 = (if p \<noteq> [] then snd (send p s) else s)
      in case receive 1 s1 of (received, s2) \<Rightarrow>
           if received = [NAK] then send_loop r p s2
           else if received = [ACK] then send_loop r p (snd (send [ACK] s2))
           else (Inl TypeError, s2))"

definition send_packet :: "bytes list \<Rightarrow> serial \<Rightarrow> (error + bool) \<times> serial" where
  "send_packet flds s =
     (case send_loop initial_retries (frame flds) s of
        (Inl e, s1) \<Rightarrow> (Inl e, s1)
      | (Inr u, s1) \<Rightarrow>
          (case receive 1 s1 of (received, s2) \<Rightarrow>
             if received \<noteq> [ACK] \<and> received \<noteq> [NAK] then (Inl TypeError, s2)
             else (Inr (received = [ACK]), s2)))"

section \<open>Decoding dates, times and glucose values\<close>

text \<open>
  \<open>datetime.strptime\<close> for formats made of \<open>%H %M %S %y %m %d\<close>. The library turns each
  directive into a group of a regular expression, an alternation of short sequences of
  character classes tried from left to right (\<open>\d\<close> is a decimal digit of any script,
  a range such as \<open>[0-5]\<close> is ASCII); the text must match from its start, the
  first match in the order of backtracking is taken, and text left over after it is an
  error. The groups are:
  \<^verbatim>\<open>%H 2[0-3]|[0-1]\d|\d   %M [0-5]\d|\d   %S 6[0-1]|[0-5]\d|\d\<close>
  \<^verbatim>\<open>%y \d\d   %m 1[0-2]|0[1-9]|[1-9]   %d 3[0-1]|[1-2]\d|0[1-9]|[1-9]| [1-9]\<close>
\<close>

datatype directive = Hour | Minute | Second | Year2 | Month | Day

datatype char_class = Range char char | Decimal

definition in_class :: "char_class \<Rightarrow> int \<Rightarrow> bool" where
  "in_class r c =
     (case r of
        Range lo hi \<Rightarrow> ord lo \<le> c \<and> c \<le> ord hi
      | Decimal \<Rightarrow> decimal_digit c \<noteq> None)"

abbreviation one :: "char \<Rightarrow> char_class" where "one c \<equiv> Range c c"

fun alternatives :: "directive \<Rightarrow> char_class list list" where
  "alternatives Hour =
     [[one CHR ''2'', Range CHR ''0'' CHR ''3''], [Range CHR ''0'' CHR ''1'', Decimal], [Decimal]]"
| "alternatives Minute = [[Range CHR ''0'' CHR ''5'', Decimal], [Decimal]]"
| "alternatives Second =
     [[one CHR ''6'', Range CHR ''0'' CHR ''1''], [Range CHR ''0'' CHR ''5'', Decimal], [Decimal]]"
| "alternatives Year2 = [[Decimal, Decimal]]"
| "alternatives Month =
     [[one CHR ''1'', Range CHR ''0'' CHR ''2''], [one CHR ''0'', Range CHR ''1'' CHR ''9''],
      [Range CHR ''1'' CHR ''9'']]"
| "alternatives Day =
     [[one CHR ''3'', Range CHR ''0'' CHR ''1''], [Range CHR ''1'' CHR ''2'', Decimal],
      [one CHR ''0'', Range CHR ''1'' CHR ''9''], [Range CHR ''1'' CHR ''9''],
      [one CHR 0x20, Range CHR ''1'' CHR ''9'']]"

fun match_classes :: "char_class list \<Rightarrow> str \<Rightarrow> (str \<times> str) option" where
  "match_classes [] s = Some ([], s)"
| "match_classes (r # rs) [] = None"
| "match_classes (r # rs) (c # cs) =
     (if in_class r c
      then (case match_classes rs cs of None \<Rightarrow> None | Some (m, rest) \<Rightarrow> Some (c # m, rest))
      else None)"

definition candidates :: "directive \<Rightarrow> str \<Rightarrow> (str \<times> str) list" where
  "candidates d s = List.map_filter (\<lambda>alt. match_classes alt s) (alternatives d)"

text \<open>All matches of a format, in the order in which backtracking finds them.\<close>

fun match_format :: "directive list \<Rightarrow> str \<Rightarrow> ((directive \<times> str) list \<times> str) list" where
  "match_format [] s = [([], s)]"
| "match_format (d # ds) s =
     concat (map (\<lambda>c. map (\<lambda>f. ((d, fst c) # fst f, snd f)) (match_format ds (snd c)))
               (candidates d s))"

record datetime =
  year :: int
  month :: int
  day :: int
  hour :: int
  minute :: int
  second :: int

definition days_in_month :: "int \<Rightarrow> int \<Rightarrow> int" where
  "days_in_month y m =
     (if m = 2 then (if y mod 4 = 0 \<and> (y mod 100 \<noteq> 0 \<or> y mod 400 = 0) then 29 else 28)
      else if m = 4 \<or> m = 6 \<or> m = 9 \<or> m = 11 then 30 else 31)"

definition field_value :: "(directive \<times> str) list \<Rightarrow> directive \<Rightarrow> int \<Rightarrow> error + int" where
  "field_value found d dflt = (case map_of found d of None \<Rightarrow> Inr dflt | Some m \<Rightarrow> py_int 10 m)"

text \<open>
  The values of the groups, with the library's defaults (1900-01-01 00:00:00) and its
  pivot for two-digit years; the \<open>datetime\<close> constructor then refuses a day the month
  does not have and a second beyond 59.
\<close>

definition make_datetime :: "(directive \<times> str) list \<Rightarrow> error + datetime" where
  "make_datetime found =
     and_then (field_value found Year2 (- 1)) (\<lambda>yy.
     and_then (field_value found Month 1) (\<lambda>mo.
     and_then (field_value found Day 1) (\<lambda>d.
     and_then (field_value found Hour 0) (\<lambda>h.
     and_then (field_value found Minute 0) (\<lambda>mi.
     and_then (field_value found Second 0) (\<lambda>sec.
       let y = (if yy < 0 then 1900 else if yy \<le> 68 then yy + 2000 else yy + 1900)
       in if 1 \<le> mo \<and> mo \<le> 12 \<and> 1 \<le> d \<and> d \<le> days_in_month y mo
             \<and> 0 \<le> h \<and> h \<le> 23 \<and> 0 \<le> mi \<and> mi \<le> 59 \<and> 0 \<le> sec \<and> sec \<le> 59
          then Inr \<lparr>year = y, month = mo, day = d, hour = h, minute = mi, second = sec\<rparr>
          else Inl ValueError))))))"

definition strptime :: "str \<Rightarrow> directive list \<Rightarrow> error + datetime" where
  "strptime text fmt =
     (case match_format fmt text of
        [] \<Rightarrow> Inl ValueError
      | m # others \<Rightarrow> if snd m \<noteq> [] then Inl ValueError else make_datetime (fst m))"

text \<open>
  The glucose value is \<open>Decimal(raw * 0.0555).quantize(Decimal(10) ** -1)\<close>. The product
  is a product of doubles: a double is kept here as a pair \<open>(m, e)\<close> standing for
  \<open>m * 2 ^ e\<close>, and every operation rounds its exact result to 53 significant bits, ties
  to even. The double nearest to 0.0555 is \<open>0x1.c6a7ef9db22d1p-5\<close>. \<open>Decimal\<close> takes the
  double exactly, and \<open>quantize\<close> rounds it to one decimal place, ties to even, refusing
  a result of more than 28 digits. The result is kept as a number of tenths.
\<close>

type_synonym double = "int \<times> int"

function bit_length :: "int \<Rightarrow> nat" where
  "bit_length n = (if n \<le> 0 then 0 else Suc (bit_length (n div 2)))"
  by pat_completeness auto
termination
  by (relation "measure nat") auto

declare bit_length.simps [simp del]

definition round53 :: "int \<Rightarrow> int \<Rightarrow> double" where
  "round53 m e =
     (let a = \<bar>m\<bar>; b = bit_length a
      in if b \<le> 53 then (m, e)
         else let sh = b - 53; q = a div 2 ^ sh; r = a mod 2 ^ sh; half = 2 ^ (sh - 1);
                  q' = (if half < r \<or> (r = half \<and> odd q) then q + 1 else q)
              in (sgn m * q', e + int sh))"

definition float_of_int :: "int \<Rightarrow> error + double" where
  "float_of_int n =
     (case round53 n 0 of (m, e) \<Rightarrow>
        if 2 ^ 1024 \<le> \<bar>m\<bar> * 2 ^ nat e then Inl OverflowError else Inr (m, e))"

definition factor :: double where
  "factor = (0x1C6A7EF9DB22D1, - 57)"

definition float_mul :: "double \<Rightarrow> double \<Rightarrow> double" where
  "float_mul x y = round53 (fst x * fst y) (snd x + snd y)"

definition quantize_tenths :: "double \<Rightarrow> error + int" where
  "quantize_tenths x =
     (let num = \<bar>fst x\<bar> * 10 * (if 0 \<le> snd x then 2 ^ nat (snd x) else 1);
          den = (if snd x < 0 then 2 ^ nat (- snd x) else 1);
          q = num div den; r = num mod den;
          t = (if den < 2 * r \<or> (2 * r = den \<and> odd q) then q + 1 else q)
      in if 10 ^ 28 \<le> t then Inl InvalidOperation else Inr (sgn (fst x) * t))"

definition glucose_value :: "int \<Rightarrow> error + int" where
  "glucose_value raw = and_then (float_of_int raw) (\<lambda>x. quantize_tenths (float_mul x factor))"

text \<open>
  One reading: the glucose value in tenths, the time stamp and the flags. The body of
  the loop of \<open>get_readings\<close> decodes one block; the time stamp is read from the second
  and third field together with the format \<open>%H%M%y%m%d\<close>.
\<close>

record reading =
  glucose :: int
  timestamp :: datetime
  flags :: int

definition decode_entry :: "bytes \<Rightarrow> error + reading" where
  "decode_entry entry =
     (let flds = split_bytes FIELD_SEPARATOR entry
      in and_then (item flds 0) (\<lambda>f0.
         and_then (decode f0) (\<lambda>t0.
         and_then (py_int 10 t0) (\<lambda>raw.
         and_then (glucose_value raw) (\<lambda>g.
         and_then (item flds 1) (\<lambda>f1.
         and_then (item flds 2) (\<lambda>f2.
         and_then (decode (f1 @ f2)) (\<lambda>t12.
         and_then (strptime t12 [Hour, Minute, Year2, Month, Day]) (\<lambda>ts.
         and_then (item flds 3) (\<lambda>f3.
         and_then (decode f3) (\<lambda>t3.
         and_then (py_int 16 t3) (\<lambda>fl.
           Inr \<lparr>glucose = g, timestamp = ts, flags = fl\<rparr>))))))))))))"

fun decode_entries :: "bytes list \<Rightarrow> error + reading list" where
  "decode_entries [] = Inr []"
| "decode_entries (entry # rest) =
     (case decode_entry entry of
        Inl e \<Rightarrow> Inl e
      | Inr r \<Rightarrow> (case decode_entries rest of Inl e \<Rightarrow> Inl e | Inr rs \<Rightarrow> Inr (r # rs)))"

section \<open>Device facade\<close>

text \<open>
  Every read operation has the same shape: the handshake, and when it answers ACK the
  packet receiver and a decoder for what it returned; when the handshake answers NAK the
  method falls off its end and returns \<open>None\<close>. The decoder gets the receiver's result as
  it is, a list of blocks or nothing.
\<close>

definition query ::
  "bytes \<Rightarrow> bytes list \<Rightarrow> (bytes list option \<Rightarrow> error + 'a) \<Rightarrow> serial \<Rightarrow> (error + 'a option) \<times> serial" where
  "query cmd flds dec s =
     (case send_command cmd flds s of
        (Inl e, s1) \<Rightarrow> (Inl e, s1)
      | (Inr False, s1) \<Rightarrow> (Inr None, s1)
      | (Inr True, s1) \<Rightarrow>
          (case receive_packet s1 of
             (Inl e, s2) \<Rightarrow> (Inl e, s2)
           | (Inr data, s2) \<Rightarrow>
               (case dec data of Inl e \<Rightarrow> (Inl e, s2) | Inr v \<Rightarrow> (Inr (Some v), s2))))"

text \<open>
  \<open>data[0]\<close>: subscripting \<open>None\<close> is a \<open>TypeError\<close>, and so is iterating over it in
  \<open>for entry in data\<close>.
\<close>

definition first_block :: "bytes list option \<Rightarrow> error + bytes" where
  "first_block data = (case data of None \<Rightarrow> Inl TypeError | Some bs \<Rightarrow> item bs 0)"

datatype AccuChekStatus =
    NO_ERROR | COMMAND_CANCELED | STX_EXPECTED_ERROR | LENGTH_EXPECTED_ERROR
  | IR_DATA_OVERRUN | INVALID_NUMBER_OF_BYTES | INVALID_PARAMETER
  | INVALID_NUMBER_OF_PARAMETERS | RECEIVE_BUFFER_FULL | COMMUNICATION_TIMEOUT
  | COMMAND_NOT_IMPLEMENTED | COMMAND_ABORTED | NO_VALID_COMMAND | INITIAL_COMMUNICATION

definition status_values :: "(int \<times> AccuChekStatus) list" where
  "status_values =
     [(0, NO_ERROR), (240, COMMAND_CANCELED), (241, STX_EXPECTED_ERROR),
      (242, LENGTH_EXPECTED_ERROR), (246, IR_DATA_OVERRUN), (247, INVALID_NUMBER_OF_BYTES),
      (248, INVALID_PARAMETER), (249, INVALID_NUMBER_OF_PARAMETERS),
      (250, RECEIVE_BUFFER_FULL), (251, COMMUNICATION_TIMEOUT),
      (252, COMMAND_NOT_IMPLEMENTED), (253, COMMAND_ABORTED), (254, NO_VALID_COMMAND),
      (255, INITIAL_COMMUNICATION)]"

definition status_of :: "int \<Rightarrow> error + AccuChekStatus" where
  "status_of n = (case map_of status_values n of None \<Rightarrow> Inl ValueError | Some st \<Rightarrow> Inr st)"

definition get_and_clear_status :: "serial \<Rightarrow> (error + AccuChekStatus option) \<times> serial" where
  "get_and_clear_status =
     query [GET_AND_CLEAR_STATUS] []
       (\<lambda>data. and_then (first_block data) (\<lambda>b. and_then (decode b) (\<lambda>t.
                 and_then (py_int 16 t) status_of)))"

definition get_meter_name :: "serial \<Rightarrow> (error + str option) \<times> serial" where
  "get_meter_name = query [GET_METER_NAME] [] (\<lambda>data. and_then (first_block data) decode)"

definition get_meter_number :: "serial \<Rightarrow> (error + str option) \<times> serial" where
  "get_meter_number =
     query [GET_METER_CONFIGURATION] [[GET_METER_NUMBER]]
       (\<lambda>data. and_then (first_block data) decode)"

definition get_serial_number :: "serial \<Rightarrow> (error + str option) \<times> serial" where
  "get_serial_number =
     query [GET_METER_CONFIGURATION] [[GET_SERIAL_NUMBER]]
       (\<lambda>data. and_then (first_block data) decode)"

record pydate =
  date_year :: int
  date_month :: int
  date_day :: int

record pytime =
  time_hour :: int
  time_minute :: int
  time_second :: int

definition get_current_date :: "serial \<Rightarrow> (error + pydate option) \<times> serial" where
  "get_current_date =
     query [GET_METER_SETTING] [[GET_FIELD_DATE]]
       (\<lambda>data. and_then (first_block data) (\<lambda>b. and_then (decode b) (\<lambda>t.
                 and_then (strptime t [Year2, Month, Day]) (\<lambda>d.
                   Inr \<lparr>date_year = year d, date_month = month d, date_day = day d\<rparr>))))"

definition get_current_time :: "serial \<Rightarrow> (error + pytime option) \<times> serial" where
  "get_current_time =
     query [GET_METER_SETTING] [[GET_FIELD_TIME]]
       (\<lambda>data. and_then (first_block data) (\<lambda>b. and_then (decode b) (\<lambda>t.
                 and_then (strptime t [Hour, Minute, Second]) (\<lambda>d.
                   Inr \<lparr>time_hour = hour d, time_minute = minute d, time_second = second d\<rparr>))))"

definition get_meter_units :: "serial \<Rightarrow> (error + str option) \<times> serial" where
  "get_meter_units =
     query [GET_METER_SETTING] [[GET_FIELD_UNITS]]
       (\<lambda>data. and_then (first_block data) decode)"

definition get_reading_count :: "serial \<Rightarrow> (error + int option) \<times> serial" where
  "get_reading_count =
     query [GET_READING_COUNT] []
       (\<lambda>data. and_then (first_block data) (\<lambda>b. and_then (decode b) (py_int 10)))"

text \<open>
  \<open>get_readings\<close> sends both indices as decimal text with the command, whatever they
  are, and decodes every block of the answer.
\<close>

definition get_readings :: "int \<Rightarrow> int \<Rightarrow> serial \<Rightarrow> (error + reading list option) \<times> serial" where
  "get_readings start stop s =
     query [GET_READINGS] [str_int start, str_int stop]
       (\<lambda>data. case data of None \<Rightarrow> Inl TypeError | Some entries \<Rightarrow> decode_entries entries) s"

text \<open>
  \<open>set_current_date\<close> formats the date as \<open>%y%m%d\<close> and sends it as one field after the
  handshake. \<open>set_current_time\<close> starts with \<open>time.value('%H%M%S')\<close>, where \<open>time\<close> is the
  class \<open>datetime.time\<close>, which has no attribute \<open>value\<close>: \<open>AttributeError\<close> is raised in
  its first line, whatever the argument, and the two lines after it are never reached.
\<close>

definition strftime_date :: "pydate \<Rightarrow> string" where
  "strftime_date d =
     zfill2 (str_nat (nat (date_year d mod 100))) @ zfill2 (str_nat (nat (date_month d)))
       @ zfill2 (str_nat (nat (date_day d)))"

definition set_current_date :: "pydate \<Rightarrow> serial \<Rightarrow> (error + bool option) \<times> serial" where
  "set_current_date v s =
     (let data = strftime_date v
      in case send_command [SET_METER_SETTING] [[GET_FIELD_DATE]] s of
           (Inl e, s1) \<Rightarrow> (Inl e, s1)
         | (Inr False, s1) \<Rightarrow> (Inr None, s1)
         | (Inr True, s1) \<Rightarrow>
             (case send_packet [data] s1 of
                (Inl e, s2) \<Rightarrow> (Inl e, s2)
              | (Inr ok, s2) \<Rightarrow> (Inr (Some ok), s2)))"

definition set_current_time :: "pytime \<Rightarrow> serial \<Rightarrow> (error + bool option) \<times> serial" where
  "set_current_time v s = (Inl AttributeError, s)"

definition turn_off :: "serial \<Rightarrow> (error + bool) \<times> serial" where
  "turn_off s = send_command [TURN_OFF] [] s"

definition clear_readings :: "serial \<Rightarrow> (error + bool option) \<times> serial" where
  "clear_readings s =
     (case send_command [CLEAR_READINGS] [] s of
        (Inl e, s1) \<Rightarrow> (Inl e, s1)
      | (Inr False, s1) \<Rightarrow> (Inr None, s1)
      | (Inr True, s1) \<Rightarrow>
          (case send_packet [] s1 of
             (Inl e, s2) \<Rightarrow> (Inl e, s2)
           | (Inr ok, s2) \<Rightarrow> (Inr (Some ok), s2)))"

text \<open>
  The situation of the last claim: the handshake of a command is answered with ACK and
  the packet receiver, started on what follows, returns nothing.
\<close>

definition answers_without_data :: "bytes \<Rightarrow> bytes list \<Rightarrow> serial \<Rightarrow> bool" where
  "answers_without_data cmd flds s =
     (fst (send_command cmd flds s) = Inr True
      \<and> fst (receive_packet (snd (send_command cmd flds s))) = Inr None)"

section \<open>The checksum is a fold\<close>

lemma checksum_loop_foldl:
  "checksum_loop acc data = foldl (\<lambda>a byte. a XOR of_char byte) acc data"
  by (induction data arbitrary: acc) simp_all

text \<open>
  Claim C9. For every byte sequence the checksum is the left fold of XOR over the bytes,
  started at the seed 110 (0x6E); the checksum of the empty sequence is 0x6E. Being a
  function of its argument alone, it is pure and deterministic.
\<close>

theorem checksum_is_xor_fold:
  "checksum data = foldl (\<lambda>acc byte. acc XOR of_char byte) 110 data \<and> checksum [] = 0x6E"
  by (simp add: checksum_def checksum_loop_foldl)

section \<open>What the receiver transmits\<close>











section \<open>Single bytes in the receiver\<close>



text \<open>
  Claim C5, as stated, fails for the end markers: ETX received while IDLE starts the
  validation of the (empty) buffer, which fails, so NAK goes out and the budget drops
  from 5 to 4.
\<close>

theorem idle_end_marker_counterexample:
  "process_byte ETX \<lparr>packet = [], in_packet = False, retries = 5, blocks = []\<rparr>
       \<lparr>rx = [], tx = []\<rparr> =
     (Running, \<lparr>packet = [], in_packet = False, retries = 4, blocks = []\<rparr>,
      \<lparr>rx = [], tx = [NAK]\<rparr>)"
  by code_simp

text \<open>
  Claim C5 (amended). While IDLE, a byte that is none of STX, ETX and EOT leaves the
  receiver's variables and the line as they are: no NAK is sent and the budget is not
  touched. ETX and EOT are not among these bytes: received while IDLE with the buffer
  empty and budget left, they send NAK and spend one unit of the budget.
\<close>

theorem idle_bytes:
  assumes "\<not> in_packet st"
  shows "(b \<noteq> STX \<and> b \<noteq> ETX \<and> b \<noteq> EOT \<longrightarrow> snd (process_byte b st s) = (st, s))
       \<and> ((b = ETX \<or> b = EOT) \<and> packet st = [] \<and> retries st \<noteq> 0 \<longrightarrow>
            process_byte b st s = (Running, st\<lparr>retries := retries st - 1\<rparr>, s\<lparr>tx := tx s @ [NAK]\<rparr>))"
proof -
  have empty: "check_packet [] = Inl ParseError"
    by (simp add: check_packet_def)
  have fin: "end_of_packet b st s = (Running, st\<lparr>retries := retries st - 1\<rparr>, s\<lparr>tx := tx s @ [NAK]\<rparr>)"
    if "packet st = []" "retries st \<noteq> 0"
    using that empty by (simp add: end_of_packet_def on_error_def send_def)
  show ?thesis
    using assms fin by (auto simp: process_byte_def)
qed

theorem idle_bytes_witness:
  "snd (process_byte CHR ''x'' \<lparr>packet = [], in_packet = False, retries = 5, blocks = []\<rparr>
          \<lparr>rx = [], tx = []\<rparr>) =
     (\<lparr>packet = [], in_packet = False, retries = 5, blocks = []\<rparr>, \<lparr>rx = [], tx = []\<rparr>)
   \<and> process_byte EOT \<lparr>packet = [], in_packet = False, retries = 5, blocks = []\<rparr>
          \<lparr>rx = [], tx = []\<rparr> =
     (Running, \<lparr>packet = [], in_packet = False, retries = 4, blocks = []\<rparr>, \<lparr>rx = [], tx = [NAK]\<rparr>)"
  using idle_bytes [of "\<lparr>packet = [], in_packet = False, retries = 5, blocks = []\<rparr>"
      "CHR ''x''" "\<lparr>rx = [], tx = []\<rparr>"]
    idle_bytes [of "\<lparr>packet = [], in_packet = False, retries = 5, blocks = []\<rparr>"
      EOT "\<lparr>rx = [], tx = []\<rparr>"]
  by simp

section \<open>Handshake and sender\<close>

text \<open>
  Claim C7 at the input where the code departs from it: the meter answers the CR of
  \<open>turn_off\<close> with 0x07, neither ACK nor NAK. The handshake does not return false; it
  raises \<open>TypeError\<close> while formatting the warning. On ACK and on NAK it returns true and
  false.
\<close>

theorem send_command_anomaly_raises:
  "send_command [TURN_OFF] [] \<lparr>rx = [[TURN_OFF], [CHR 0x07]], tx = []\<rparr> =
     (Inl TypeError, \<lparr>rx = [], tx = [TURN_OFF, CR]\<rparr>)
   \<and> send_command [TURN_OFF] [] \<lparr>rx = [[TURN_OFF], [ACK]], tx = []\<rparr> =
     (Inr True, \<lparr>rx = [], tx = [TURN_OFF, CR]\<rparr>)
   \<and> send_command [TURN_OFF] [] \<lparr>rx = [[TURN_OFF], [NAK]], tx = []\<rparr> =
     (Inr False, \<lparr>rx = [], tx = [TURN_OFF, CR]\<rparr>)"
  by code_simp

text \<open>
  Claim C3 at the inputs where the code departs from it. The meter acknowledges the
  frame of the field \<open>200101\<close> every time: the sender answers ACK and transmits the same
  frame again, five times in all. The meter answers the frame with 0x07: the sender
  raises \<open>TypeError\<close> and no NAK is sent.
\<close>

theorem send_packet_ack_retransmits:
  "send_packet [''200101''] \<lparr>rx = [[ACK], [ACK], [ACK], [ACK], [ACK], [ACK]], tx = []\<rparr> =
     (Inr True, \<lparr>rx = [], tx = concat (replicate 5 (frame [''200101''] @ [ACK]))\<rparr>)
   \<and> send_packet [''200101''] \<lparr>rx = [[CHR 0x07]], tx = []\<rparr> =
     (Inl TypeError, \<lparr>rx = [], tx = frame [''200101'']\<rparr>)
   \<and> frame [''200101''] = [STX] @ ''08'' @ [TAB] @ ''200101'' @ [TAB] @ ''6C'' @ [EOT]"
  by code_simp

text \<open>
  Claim C8 at an input where the code departs from it: \<open>set_current_time\<close> raises
  \<open>AttributeError\<close> before anything is sent, whereas \<open>set_current_date\<close>, on a meter that
  acknowledges the handshake and the frame, sends the handshake and the frame.
\<close>

theorem set_current_time_raises:
  "set_current_time \<lparr>time_hour = 12, time_minute = 0, time_second = 0\<rparr>
       \<lparr>rx = [[SET_METER_SETTING], [TAB], [GET_FIELD_TIME], [ACK], [ACK], [ACK]], tx = []\<rparr> =
     (Inl AttributeError,
      \<lparr>rx = [[SET_METER_SETTING], [TAB], [GET_FIELD_TIME], [ACK], [ACK], [ACK]], tx = []\<rparr>)
   \<and> set_current_date \<lparr>date_year = 2020, date_month = 1, date_day = 1\<rparr>
       \<lparr>rx = [[SET_METER_SETTING], [TAB], [GET_FIELD_DATE], [ACK], [ACK], [NAK], [NAK], [NAK], [NAK], [ACK]], tx = []\<rparr> =
     (Inr (Some True),
      \<lparr>rx = [], tx = [SET_METER_SETTING, TAB, GET_FIELD_DATE, CR] @ frame [''200101''] @ [ACK]
                     @ concat (replicate 4 (frame [''200101'']))\<rparr>)"
  by code_simp

section \<open>The facade\<close>







text \<open>
  Claim C1, as stated, fails: with six time digits the text \<open>120000200101\<close> does not
  match the format \<open>%H%M%y%m%d\<close> and decoding raises \<open>ValueError\<close>; and the glucose
  value of the raw reading 100 is 5.5, since the double product 100 * 0.0555 lies just
  below 5.55.
\<close>

theorem decode_entry_six_digit_time_counterexample:
  "decode_entry (''100'' @ [TAB] @ ''120000'' @ [TAB] @ ''200101'' @ [TAB] @ ''00'') = Inl ValueError
   \<and> glucose_value 100 = Inr 55"
  by code_simp

text \<open>
  Claim C1 (amended). Decoding the block with raw glucose \<open>100\<close>, time digits \<open>1200\<close>
  (hours and minutes), date digits \<open>200101\<close> and flags \<open>00\<close> gives glucose 5.5 (55
  tenths), the time stamp 2020-01-01T12:00:00 and flags 0.
\<close>

theorem decode_entry_four_digit_time:
  "decode_entry (''100'' @ [TAB] @ ''1200'' @ [TAB] @ ''200101'' @ [TAB] @ ''00'') =
     Inr \<lparr>glucose = 55,
          timestamp = \<lparr>year = 2020, month = 1, day = 1, hour = 12, minute = 0, second = 0\<rparr>,
          flags = 0\<rparr>"
  by code_simp

lemma query_without_data:
  assumes "answers_without_data cmd flds s" and "dec None = Inl TypeError"
  shows "fst (query cmd flds dec s) = Inl TypeError"
proof -
  obtain s1 where sc: "send_command cmd flds s = (Inr True, s1)"
    using assms(1) by (cases "send_command cmd flds s") (auto simp: answers_without_data_def)
  obtain s2 where rp: "receive_packet s1 = (Inr None, s2)"
    using assms(1) sc by (cases "receive_packet s1") (auto simp: answers_without_data_def)
  show ?thesis
    using sc rp assms(2) by (simp add: query_def)
qed

lemma first_block_None: "and_then (first_block None) f = Inl TypeError"
  by (simp add: first_block_def and_then_def)

text \<open>
  Claim C10. For each of the nine read operations of the facade: when the handshake is
  answered with ACK and the packet receiver then returns no result, the operation does
  not return a value; taking the first block of nothing (for \<open>get_readings\<close>, iterating
  over nothing) raises \<open>TypeError\<close>, which nothing handles.
\<close>

theorem facade_read_without_data_raises:
  "(answers_without_data [GET_AND_CLEAR_STATUS] [] s \<longrightarrow> fst (get_and_clear_status s) = Inl TypeError)
   \<and> (answers_without_data [GET_METER_NAME] [] s \<longrightarrow> fst (get_meter_name s) = Inl TypeError)
   \<and> (answers_without_data [GET_METER_CONFIGURATION] [[GET_METER_NUMBER]] s \<longrightarrow>
        fst (get_meter_number s) = Inl TypeError)
   \<and> (answers_without_data [GET_METER_CONFIGURATION] [[GET_SERIAL_NUMBER]] s \<longrightarrow>
        fst (get_serial_number s) = Inl TypeError)
   \<and> (answers_without_data [GET_METER_SETTING] [[GET_FIELD_DATE]] s \<longrightarrow>
        fst (get_current_date s) = Inl TypeError)
   \<and> (answers_without_data [GET_METER_SETTING] [[GET_FIELD_TIME]] s \<longrightarrow>
        fst (get_current_time s) = Inl TypeError)
   \<and> (answers_without_data [GET_METER_SETTING] [[GET_FIELD_UNITS]] s \<longrightarrow>
        fst (get_meter_units s) = Inl TypeError)
   \<and> (answers_without_data [GET_READING_COUNT] [] s \<longrightarrow> fst (get_reading_count s) = Inl TypeError)
   \<and> (answers_without_data [GET_READINGS] [str_int start, str_int stop] s \<longrightarrow>
        fst (get_readings start stop s) = Inl TypeError)"
  by (simp add: get_and_clear_status_def get_meter_name_def get_meter_number_def
      get_serial_number_def get_current_date_def get_current_time_def get_meter_units_def
      get_reading_count_def get_readings_def query_without_data first_block_None)

theorem facade_read_without_data_raises_witness:
  "fst (get_and_clear_status
     \<lparr>rx = [[GET_AND_CLEAR_STATUS], [ACK], [ETX], [ETX], [ETX], [ETX], [ETX], [ETX]], tx = []\<rparr>)
     = Inl TypeError
   \<and> fst (get_meter_name
     \<lparr>rx = [[GET_METER_NAME], [ACK], [ETX], [ETX], [ETX], [ETX], [ETX], [ETX]], tx = []\<rparr>)
     = Inl TypeError
   \<and> fst (get_meter_number
     \<lparr>rx = [[GET_METER_CONFIGURATION], [TAB], [GET_METER_NUMBER], [ACK],
             [ETX], [ETX], [ETX], [ETX], [ETX], [ETX]], tx = []\<rparr>)
     = Inl TypeError
   \<and> fst (get_serial_number
     \<lparr>rx = [[GET_METER_CONFIGURATION], [TAB], [GET_SERIAL_NUMBER], [ACK],
             [ETX], [ETX], [ETX], [ETX], [ETX], [ETX]], tx = []\<rparr>)
     = Inl TypeError
   \<and> fst (get_current_date
     \<lparr>rx = [[GET_METER_SETTING], [TAB], [GET_FIELD_DATE], [ACK],
             [ETX], [ETX], [ETX], [ETX], [ETX], [ETX]], tx = []\<rparr>)
     = Inl TypeError
   \<and> fst (get_current_time
     \<lparr>rx = [[GET_METER_SETTING], [TAB], [GET_FIELD_TIME], [ACK],
             [ETX], [ETX], [ETX], [ETX], [ETX], [ETX]], tx = []\<rparr>)
     = Inl TypeError
   \<and> fst (get_meter_units
     \<lparr>rx = [[GET_METER_SETTING], [TAB], [GET_FIELD_UNITS], [ACK],
             [ETX], [ETX], [ETX], [ETX], [ETX], [ETX]], tx = []\<rparr>)
     = Inl TypeError
   \<and> fst (get_reading_count
     \<lparr>rx = [[GET_READING_COUNT], [ACK], [ETX], [ETX], [ETX], [ETX], [ETX], [ETX]], tx = []\<rparr>)
     = Inl TypeError
   \<and> fst (get_readings 1 5
     \<lparr>rx = [[GET_READINGS], [TAB], ''1'', [TAB], ''5'', [ACK],
             [ETX], [ETX], [ETX], [ETX], [ETX], [ETX]], tx = []\<rparr>)
     = Inl TypeError"
proof -
  note t = facade_read_without_data_raises
  have h1: "answers_without_data [GET_AND_CLEAR_STATUS] []
     \<lparr>rx = [[GET_AND_CLEAR_STATUS], [ACK], [ETX], [ETX], [ETX], [ETX], [ETX], [ETX]], tx = []\<rparr>"
    by code_simp
  have h2: "answers_without_data [GET_METER_NAME] []
     \<lparr>rx = [[GET_METER_NAME], [ACK], [ETX], [ETX], [ETX], [ETX], [ETX], [ETX]], tx = []\<rparr>"
    by code_simp
  have h3: "answers_without_data [GET_METER_CONFIGURATION] [[GET_METER_NUMBER]]
     \<lparr>rx = [[GET_METER_CONFIGURATION], [TAB], [GET_METER_NUMBER], [ACK],
             [ETX], [ETX], [ETX], [ETX], [ETX], [ETX]], tx = []\<rparr>"
    by code_simp
  have h4: "answers_without_data [GET_METER_CONFIGURATION] [[GET_SERIAL_NUMBER]]
     \<lparr>rx = [[GET_METER_CONFIGURATION], [TAB], [GET_SERIAL_NUMBER], [ACK],
             [ETX], [ETX], [ETX], [ETX], [ETX], [ETX]], tx = []\<rparr>"
    by code_simp
  have h5: "answers_without_data [GET_METER_SETTING] [[GET_FIELD_DATE]]
     \<lparr>rx = [[GET_METER_SETTING], [TAB], [GET_FIELD_DATE], [ACK],
             [ETX], [ETX], [ETX], [ETX], [ETX], [ETX]], tx = []\<rparr>"
    by code_simp
  have h6: "answers_without_data [GET_METER_SETTING] [[GET_FIELD_TIME]]
     \<lparr>rx = [[GET_METER_SETTING], [TAB], [GET_FIELD_TIME], [ACK],
             [ETX], [ETX], [ETX], [ETX], [ETX], [ETX]], tx = []\<rparr>"
    by code_simp
  have h7: "answers_without_data [GET_METER_SETTING] [[GET_FIELD_UNITS]]
     \<lparr>rx = [[GET_METER_SETTING], [TAB], [GET_FIELD_UNITS], [ACK],
             [ETX], [ETX], [ETX], [ETX], [ETX], [ETX]], tx = []\<rparr>"
    by code_simp
  have h8: "answers_without_data [GET_READING_COUNT] []
     \<lparr>rx = [[GET_READING_COUNT], [ACK], [ETX], [ETX], [ETX], [ETX], [ETX], [ETX]], tx = []\<rparr>"
    by code_simp
  have s15: "str_int 1 = ''1''" "str_int 5 = ''5''"
    by code_simp+
  have h9: "answers_without_data [GET_READINGS] [str_int 1, str_int 5]
     \<lparr>rx = [[GET_READINGS], [TAB], ''1'', [TAB], ''5'', [ACK],
             [ETX], [ETX], [ETX], [ETX], [ETX], [ETX]], tx = []\<rparr>"
    unfolding s15 by code_simp
  show ?thesis
    using t [THEN conjunct1, rule_format, OF h1]
      t [THEN conjunct2, THEN conjunct1, rule_format, OF h2]
      t [THEN conjunct2, THEN conjunct2, THEN conjunct1, rule_format, OF h3]
      t [THEN conjunct2, THEN conjunct2, THEN conjunct2, THEN conjunct1, rule_format, OF h4]
      t [THEN conjunct2, THEN conjunct2, THEN conjunct2, THEN conjunct2, THEN conjunct1,
         rule_format, OF h5]
      t [THEN conjunct2, THEN conjunct2, THEN conjunct2, THEN conjunct2, THEN conjunct2,
         THEN conjunct1, rule_format, OF h6]
      t [THEN conjunct2, THEN conjunct2, THEN conjunct2, THEN conjunct2, THEN conjunct2,
         THEN conjunct2, THEN conjunct1, rule_format, OF h7]
      t [THEN conjunct2, THEN conjunct2, THEN conjunct2, THEN conjunct2, THEN conjunct2,
         THEN conjunct2, THEN conjunct2, THEN conjunct1, rule_format, OF h8]
      t [THEN conjunct2, THEN conjunct2, THEN conjunct2, THEN conjunct2, THEN conjunct2,
         THEN conjunct2, THEN conjunct2, THEN conjunct2, rule_format, OF h9]
    by blast
qed

end
